theory Spec2Isabelle
  imports Main "HOL-Library.Word"
begin

section \<open>Common types\<close>

text \<open>
  The result codes named in the sources (\<open>Result::Success\<close> in queueContext.cpp, the
  four error codes in the comments of palPipeline.h). The enumeration itself is declared
  in another header; every other code of it is \<open>OtherResult n\<close>.
\<close>

datatype Result =
    Success
  | ErrorUnavailable
  | ErrorInvalidValue
  | ErrorInvalidPointer
  | ErrorBadPipelineData
  | OtherResult nat

type_synonym gpusize = "64 word"

text \<open>A \<open>GpuMemory*\<close>: \<open>None\<close> is \<open>nullptr\<close>, \<open>Some h\<close> points to the object \<open>h\<close>.\<close>

type_synonym GpuMemory = nat
type_synonym GpuMemory_ptr = "GpuMemory option"

text \<open>
  A CPU pointer obtained by mapping: the mapped object and a byte position in it.
  \<open>None\<close> is \<open>nullptr\<close>.
\<close>

type_synonym cpu_ptr = "(GpuMemory \<times> gpusize) option"

section \<open>The memory manager's request\<close>

text \<open>
  The enumerators that queueContext.cpp names; the enumerations are declared in other
  headers, and \<open>Other...\<close> stands for every enumerator not named here.
\<close>

datatype GpuHeap = GpuHeapLocal | GpuHeapGartUswc | OtherGpuHeap nat
datatype GpuMemPriority = Normal | OtherGpuMemPriority nat
datatype VaRange = Default | OtherVaRange nat

text \<open>
  The fields of \<open>GpuMemoryCreateInfo\<close> and \<open>GpuMemoryInternalCreateInfo\<close> that
  \<open>CreateTimestampMem\<close> assigns; every other field stays as \<open>= { }\<close> left it.
  \<open>heaps\<close> holds the entries of the array that were assigned, in index order.
\<close>

record GpuMemoryCreateInfo =
  alignment :: gpusize
  size :: gpusize
  priority :: GpuMemPriority
  vaRange :: VaRange
  heaps :: "GpuHeap list"
  heapCount :: nat

record GpuMemoryInternalCreateInfo =
  alwaysResident :: bool

section \<open>The world outside the queue context\<close>

text \<open>
  What the queue context does to its collaborators, in program order: the calls to the
  memory manager, the map and unmap calls on a GPU memory object, and the stores through
  a mapped pointer (object, position, number of bytes).
\<close>

datatype event =
    EvAllocateGpuMem GpuMemoryCreateInfo GpuMemoryInternalCreateInfo bool
  | EvFreeGpuMem GpuMemory_ptr gpusize
  | EvMap GpuMemory
  | EvStore GpuMemory gpusize nat
  | EvUnmap GpuMemory

record World =
  contents :: "GpuMemory \<Rightarrow> gpusize \<Rightarrow> 8 word"
  trace :: "event list"

text \<open>
  What the collaborators answer during one call of \<open>CreateTimestampMem\<close>: the memory
  manager's result with the two values it writes through its out-parameters, the result
  of mapping and the result of unmapping. Each is asked at most once per call.
\<close>

record Replies =
  allocReply :: "Result \<times> GpuMemory_ptr \<times> gpusize"
  mapReply :: Result
  unmapReply :: Result

definition log_event :: "event \<Rightarrow> World \<Rightarrow> World" where
  "log_event e w = w\<lparr>trace := trace w @ [e]\<rparr>"

text \<open>Little-endian stores and loads of 32 and 64 bits at a byte position of an object.\<close>

definition byte_of :: "nat \<Rightarrow> 'a::len word \<Rightarrow> 8 word" where
  "byte_of i v = ucast (drop_bit (8 * i) v)"

fun store_bytes ::
  "GpuMemory \<Rightarrow> gpusize \<Rightarrow> 8 word list \<Rightarrow> (GpuMemory \<Rightarrow> gpusize \<Rightarrow> 8 word)
    \<Rightarrow> (GpuMemory \<Rightarrow> gpusize \<Rightarrow> 8 word)" where
  "store_bytes h a [] m = m"
| "store_bytes h a (b # bs) m = store_bytes h (a + 1) bs (m(h := (m h)(a := b)))"

definition store_u32 :: "GpuMemory \<times> gpusize \<Rightarrow> 32 word \<Rightarrow> World \<Rightarrow> World" where
  "store_u32 p v w =
     log_event (EvStore (fst p) (snd p) 4)
       (w\<lparr>contents := store_bytes (fst p) (snd p) (map (\<lambda>i. byte_of i v) [0..<4]) (contents w)\<rparr>)"

definition store_u64 :: "GpuMemory \<times> gpusize \<Rightarrow> 64 word \<Rightarrow> World \<Rightarrow> World" where
  "store_u64 p v w =
     log_event (EvStore (fst p) (snd p) 8)
       (w\<lparr>contents := store_bytes (fst p) (snd p) (map (\<lambda>i. byte_of i v) [0..<8]) (contents w)\<rparr>)"

definition load_u32 :: "GpuMemory \<times> gpusize \<Rightarrow> World \<Rightarrow> 32 word" where
  "load_u32 p w =
     word_rcat [contents w (fst p) (snd p + 3), contents w (fst p) (snd p + 2),
                contents w (fst p) (snd p + 1), contents w (fst p) (snd p)]"

section \<open>Bound GPU memory\<close>

text \<open>
  Modelled from the spec: the class \<open>BoundGpuMemory\<close> is declared in another file of the
  repository. The spec describes it as a value pairing a GPU memory allocation handle with a
  byte offset into it, unbound when the handle is null, which reports whether it
  references an allocation and supports map and unmap to obtain a CPU-visible pointer.
  Mapping or unmapping goes through the handle, so on an unbound value it dereferences
  a null pointer: the model returns \<open>None\<close> there. A successful map yields the pointer
  to the bound offset of the object.
\<close>

record BoundGpuMemory =
  m_pGpuMemory :: GpuMemory_ptr
  m_offset :: gpusize

definition Update :: "GpuMemory_ptr \<Rightarrow> gpusize \<Rightarrow> BoundGpuMemory \<Rightarrow> BoundGpuMemory" where
  "Update pGpuMemory offset b = b\<lparr>m_pGpuMemory := pGpuMemory, m_offset := offset\<rparr>"

definition IsBound :: "BoundGpuMemory \<Rightarrow> bool" where
  "IsBound b = (m_pGpuMemory b \<noteq> None)"

definition Memory :: "BoundGpuMemory \<Rightarrow> GpuMemory_ptr" where
  "Memory b = m_pGpuMemory b"

definition Offset :: "BoundGpuMemory \<Rightarrow> gpusize" where
  "Offset b = m_offset b"

definition Map :: "Result \<Rightarrow> BoundGpuMemory \<Rightarrow> World \<Rightarrow> (Result \<times> cpu_ptr \<times> World) option" where
  "Map reply b w =
     (case m_pGpuMemory b of
        None \<Rightarrow> None
      | Some h \<Rightarrow>
          Some (reply, if reply = Success then Some (h, m_offset b) else None,
                log_event (EvMap h) w))"

definition Unmap :: "Result \<Rightarrow> BoundGpuMemory \<Rightarrow> World \<Rightarrow> (Result \<times> World) option" where
  "Unmap reply b w =
     (case m_pGpuMemory b of
        None \<Rightarrow> None
      | Some h \<Rightarrow> Some (reply, log_event (EvUnmap h) w))"

section \<open>The queue context (src/core/queueContext.cpp)\<close>

record QueueContext =
  m_exclusiveExecTs :: BoundGpuMemory
  m_waitForIdleTs :: BoundGpuMemory

text \<open>
  Modelled from the spec: the constructor is declared in core/queueContext.h, not in
  queueContext.cpp. A queue context starts with no timestamp memory, both slots unbound.
\<close>

definition QueueContext_ctor :: QueueContext where
  "QueueContext_ctor =
     \<lparr>m_exclusiveExecTs = \<lparr>m_pGpuMemory = None, m_offset = 0\<rparr>,
      m_waitForIdleTs = \<lparr>m_pGpuMemory = None, m_offset = 0\<rparr>\<rparr>"

text \<open>
  The destructor. The first component of the result tells whether \<open>PAL_ASSERT\<close> held
  (it is \<open>True\<close> when the assertion is not reached).
\<close>

definition QueueContext_dtor :: "QueueContext \<Rightarrow> World \<Rightarrow> bool \<times> QueueContext \<times> World" where
  "QueueContext_dtor q w =
     (let (q1, asserted) =
            (if IsBound (m_waitForIdleTs q)
             then (q\<lparr>m_waitForIdleTs := Update None 0 (m_waitForIdleTs q)\<rparr>,
                   IsBound (m_exclusiveExecTs q))
             else (q, True))
      in if IsBound (m_exclusiveExecTs q1)
         then (asserted,
               q1\<lparr>m_exclusiveExecTs := Update None 0 (m_exclusiveExecTs q1)\<rparr>,
               log_event (EvFreeGpuMem (Memory (m_exclusiveExecTs q1))
                                       (Offset (m_exclusiveExecTs q1))) w)
         else (asserted, q1, w))"

text \<open>
  \<open>InternalSubmitInfo\<close>: the three fields that \<open>PreProcessSubmit\<close> assigns; the record
  is extensible, and the rest of the structure is the extension, which the function
  leaves alone. The input \<open>SubmitInfo\<close> is declared in another header and
  never read: any type stands for it. \<open>pSubmitInfo\<close> points to a record, which the
  model takes and returns.
\<close>

record InternalSubmitInfo =
  numPreambleCmdStreams :: "32 word"
  numPostambleCmdStreams :: "32 word"
  pagingFence :: "64 word"

definition PreProcessSubmit ::
  "'a InternalSubmitInfo_scheme \<Rightarrow> 'si \<Rightarrow> Result \<times> 'a InternalSubmitInfo_scheme" where
  "PreProcessSubmit pSubmitInfo submitInfo =
     (Success,
      pSubmitInfo\<lparr>numPreambleCmdStreams := 0, numPostambleCmdStreams := 0, pagingFence := 0\<rparr>)"

text \<open>
  The request that \<open>CreateTimestampMem\<close> builds in lines 73 to 83: \<open>sizeof(uint32)\<close>
  is 4 and \<open>sizeof(uint64)\<close> is 8.
\<close>

definition timestampCreateInfo :: "bool \<Rightarrow> GpuMemoryCreateInfo" where
  "timestampCreateInfo needWaitForIdleMem =
     \<lparr>alignment = 4,
      size = (if needWaitForIdleMem then 8 else 4),
      priority = Normal,
      vaRange = Default,
      heaps = [GpuHeapLocal, GpuHeapGartUswc],
      heapCount = 2\<rparr>"

definition timestampInternalInfo :: GpuMemoryInternalCreateInfo where
  "timestampInternalInfo = \<lparr>alwaysResident = True\<rparr>"

text \<open>
  \<open>CreateTimestampMem\<close>. The result is \<open>None\<close> when the call dereferences a null
  pointer (the memory manager reported success without an object); otherwise it is the
  returned code with the queue context and the world as the call leaves them.
\<close>

definition CreateTimestampMem ::
  "bool \<Rightarrow> Replies \<Rightarrow> QueueContext \<Rightarrow> World \<Rightarrow> (Result \<times> QueueContext \<times> World) option" where
  "CreateTimestampMem needWaitForIdleMem env q w =
     (let createInfo = timestampCreateInfo needWaitForIdleMem;
          internalInfo = timestampInternalInfo;
          w1 = log_event (EvAllocateGpuMem createInfo internalInfo False) w;
          (result, pGpuMemory, offset) = allocReply env
      in if result = Success
         then
           (let q1 = q\<lparr>m_exclusiveExecTs := Update pGpuMemory offset (m_exclusiveExecTs q)\<rparr>;
                q2 = (if needWaitForIdleMem
                      then q1\<lparr>m_waitForIdleTs :=
                                Update pGpuMemory (offset + 4) (m_waitForIdleTs q1)\<rparr>
                      else q1)
            in case Map (mapReply env) (m_exclusiveExecTs q2) w1 of
                 None \<Rightarrow> None
               | Some (result, pPtr, w2) \<Rightarrow>
                   if result = Success
                   then
                     (case pPtr of
                        None \<Rightarrow> None
                      | Some p \<Rightarrow>
                          (let w3 = (if needWaitForIdleMem then store_u64 p 0 w2
                                     else store_u32 p 0 w2)
                           in case Unmap (unmapReply env) (m_exclusiveExecTs q2) w3 of
                                None \<Rightarrow> None
                              | Some (result, w4) \<Rightarrow> Some (result, q2, w4)))
                   else Some (result, q2, w2))
         else Some (result, q, w1))"

section \<open>Notions used to state the properties of the queue context\<close>

text \<open>
  The 32-bit value a timestamp slot holds: what a little-endian load at the slot's
  offset of the slot's object gives; \<open>None\<close> when the slot is unbound.
\<close>

definition timestamp_value :: "BoundGpuMemory \<Rightarrow> World \<Rightarrow> 32 word option" where
  "timestamp_value b w =
     (case Memory b of None \<Rightarrow> None | Some h \<Rightarrow> Some (load_u32 (h, Offset b) w))"

definition bound_at :: "GpuMemory \<Rightarrow> gpusize \<Rightarrow> BoundGpuMemory" where
  "bound_at h off = \<lparr>m_pGpuMemory = Some h, m_offset = off\<rparr>"

text \<open>
  The bindings after lines 91 to 96 of queueContext.cpp, for an allocation \<open>h\<close> at
  offset \<open>off\<close>.
\<close>

definition bind_timestamps :: "bool \<Rightarrow> GpuMemory \<Rightarrow> gpusize \<Rightarrow> QueueContext \<Rightarrow> QueueContext" where
  "bind_timestamps need h off q =
     q\<lparr>m_exclusiveExecTs := bound_at h off,
       m_waitForIdleTs := (if need then bound_at h (off + 4) else m_waitForIdleTs q)\<rparr>"

fun is_alloc :: "event \<Rightarrow> bool" where
  "is_alloc (EvAllocateGpuMem ci ii ro) = True"
| "is_alloc e = False"

fun is_free :: "event \<Rightarrow> bool" where
  "is_free (EvFreeGpuMem p off) = True"
| "is_free e = False"

text \<open>
  The calls a client can make on a live queue context, and runs of such calls from a
  state. A run that dereferences a null pointer has no final state.
\<close>

datatype 'si qc_call =
    CallCreateTimestampMem bool Replies
  | CallPreProcessSubmit InternalSubmitInfo 'si

fun qc_call_step ::
  "'si qc_call \<Rightarrow> QueueContext \<times> World \<Rightarrow> (QueueContext \<times> World) option" where
  "qc_call_step (CallCreateTimestampMem need env) (q, w) =
     (case CreateTimestampMem need env q w of
        None \<Rightarrow> None
      | Some (r, q', w') \<Rightarrow> Some (q', w'))"
| "qc_call_step (CallPreProcessSubmit out si) (q, w) =
     (case PreProcessSubmit out si of (r, out') \<Rightarrow> Some (q, w))"

fun qc_run ::
  "'si qc_call list \<Rightarrow> QueueContext \<times> World \<Rightarrow> (QueueContext \<times> World) option" where
  "qc_run [] s = Some s"
| "qc_run (c # cs) s = (case qc_call_step c s of None \<Rightarrow> None | Some s' \<Rightarrow> qc_run cs s')"

definition ts_invariant :: "QueueContext \<Rightarrow> bool" where
  "ts_invariant q = (IsBound (m_waitForIdleTs q) \<longrightarrow> IsBound (m_exclusiveExecTs q))"

text \<open>Concrete collaborators' answers, a world and a run, for the examples.\<close>

definition env_ok :: Replies where
  "env_ok = \<lparr>allocReply = (Success, Some 7, 16), mapReply = Success, unmapReply = Success\<rparr>"

definition env_alloc_fail :: Replies where
  "env_alloc_fail = \<lparr>allocReply = (OtherResult 1, None, 0), mapReply = Success, unmapReply = Success\<rparr>"

definition env_map_fail :: Replies where
  "env_map_fail = \<lparr>allocReply = (Success, Some 7, 16), mapReply = OtherResult 2, unmapReply = Success\<rparr>"

definition env_unmap_fail :: Replies where
  "env_unmap_fail = \<lparr>allocReply = (Success, Some 7, 24), mapReply = Success, unmapReply = OtherResult 3\<rparr>"

definition world0 :: World where
  "world0 = \<lparr>contents = (\<lambda>h a. 255), trace = []\<rparr>"

definition run0 :: "unit qc_call list" where
  "run0 = [CallCreateTimestampMem False env_alloc_fail,
           CallCreateTimestampMem True env_ok,
           CallPreProcessSubmit \<lparr>numPreambleCmdStreams = 3, numPostambleCmdStreams = 4, pagingFence = 5\<rparr> (),
           CallCreateTimestampMem False env_map_fail]"

section \<open>The pipeline interface (inc/core/palPipeline.h)\<close>

text \<open>A \<open>void*\<close>: \<open>None\<close> is \<open>nullptr\<close>.\<close>

type_synonym void_ptr = "nat option"

text \<open>
  \<open>IPipeline\<close> has one data member, the private \<open>m_pClientData\<close>. The record is
  extensible: the extension is the state of the implementing class.
\<close>

record IPipeline =
  m_pClientData :: void_ptr

definition IPipeline_ctor :: "'a \<Rightarrow> 'a IPipeline_scheme" where
  "IPipeline_ctor derived = \<lparr>m_pClientData = None, \<dots> = derived\<rparr>"

definition GetClientData :: "'a IPipeline_scheme \<Rightarrow> void_ptr" where
  "GetClientData this = m_pClientData this"

definition SetClientData :: "void_ptr \<Rightarrow> 'a IPipeline_scheme \<Rightarrow> 'a IPipeline_scheme" where
  "SetClientData pClientData this = this\<lparr>m_pClientData := pClientData\<rparr>"

text \<open>
  The calls on a pipeline object. The other operations of the interface are pure
  virtual; \<open>m_pClientData\<close> is private to \<open>IPipeline\<close>, so the code of an implementing
  class reads and writes its own members only, the extension of the record:
  \<open>CallVirtual f\<close> is any such operation, with \<open>f\<close> its effect on the extension.
  \<open>GetClientData\<close> is \<open>const\<close>.
\<close>

datatype 'a pipeline_call =
    CallSetClientData void_ptr
  | CallGetClientData
  | CallVirtual "'a \<Rightarrow> 'a"

fun pipeline_call_step :: "'a pipeline_call \<Rightarrow> 'a IPipeline_scheme \<Rightarrow> 'a IPipeline_scheme" where
  "pipeline_call_step (CallSetClientData p) this = SetClientData p this"
| "pipeline_call_step CallGetClientData this = this"
| "pipeline_call_step (CallVirtual f) this = this\<lparr>IPipeline.more := f (IPipeline.more this)\<rparr>"

fun pipeline_run :: "'a pipeline_call list \<Rightarrow> 'a IPipeline_scheme \<Rightarrow> 'a IPipeline_scheme" where
  "pipeline_run [] this = this"
| "pipeline_run (c # cs) this = pipeline_run cs (pipeline_call_step c this)"

text \<open>
  The argument of the last \<open>SetClientData\<close> call of a run, or \<open>p\<close> when the run has
  none.
\<close>

fun last_set :: "'a pipeline_call list \<Rightarrow> void_ptr \<Rightarrow> void_ptr" where
  "last_set [] p = p"
| "last_set (CallSetClientData p' # cs) p = last_set cs p'"
| "last_set (CallGetClientData # cs) p = last_set cs p"
| "last_set (CallVirtual f # cs) p = last_set cs p"

text \<open>Whether a call is a call of \<open>SetClientData\<close>.\<close>

fun is_set :: "'a pipeline_call \<Rightarrow> bool" where
  "is_set (CallSetClientData p) = True"
| "is_set c = False"

text \<open>
  Modelled from the spec: \<open>QueryAllocationInfo\<close> is pure virtual in palPipeline.h and
  its implementation is in another file of the repository. The spec: if the output list
  pointer is null, the count pointer is populated with the number of allocations and
  the count's input value is ignored; if non-null, the count pointer's input value is
  the capacity of the caller's buffer and must equal the actual number of allocations
  or the call fails with an invalid-value error; a null count pointer is an
  invalid-pointer error; contract violations have no side effects.

  \<open>allocs\<close> are the allocations backing the pipeline. \<open>pNumEntries\<close> is \<open>None\<close> for a
  null pointer and \<open>Some n\<close> for a pointer to the value \<open>n\<close>; \<open>pAllocInfoList\<close> is
  \<open>None\<close> for a null pointer and \<open>Some buf\<close> for a pointer to an array holding
  \<open>buf\<close>. The result is the code with what the two pointers refer to afterwards.
\<close>

definition QueryAllocationInfo ::
  "'e list \<Rightarrow> nat option \<Rightarrow> 'e list option \<Rightarrow> Result \<times> nat option \<times> 'e list option" where
  "QueryAllocationInfo allocs pNumEntries pAllocInfoList =
     (case pNumEntries of
        None \<Rightarrow> (ErrorInvalidPointer, pNumEntries, pAllocInfoList)
      | Some n \<Rightarrow>
          (case pAllocInfoList of
             None \<Rightarrow> (Success, Some (length allocs), None)
           | Some buf \<Rightarrow>
               if n \<noteq> length allocs
               then (ErrorInvalidValue, pNumEntries, pAllocInfoList)
               else (Success, Some (length allocs),
                     Some (allocs @ drop (length allocs) buf))))"

text \<open>
  Modelled from the spec: \<open>LinkWithLibraries\<close> is pure virtual in palPipeline.h and
  its implementation is in another file of the repository. The spec: the operation is
  restricted to compute pipelines and fails "unavailable" on a graphics pipeline; it
  fails with a bad-pipeline-data error if any library is incompatible, a check that runs
  before any state is mutated; repeated calls accumulate link state and do not
  invalidate previously linked libraries' resolved addresses; it is idempotent.

  The link state is the list of the libraries linked so far, each with its resolved
  address. What makes a library compatible with the pipeline, and the address a library
  resolves to, are parameters.
\<close>

datatype PipelineKind = Compute | Graphics

record 'l LinkablePipeline =
  kind :: PipelineKind
  linkState :: "('l \<times> gpusize) list"

definition link_one :: "('l \<Rightarrow> gpusize) \<Rightarrow> 'l \<Rightarrow> ('l \<times> gpusize) list \<Rightarrow> ('l \<times> gpusize) list" where
  "link_one resolve l st = (if l \<in> fst ` set st then st else st @ [(l, resolve l)])"

definition LinkWithLibraries ::
  "('l \<Rightarrow> bool) \<Rightarrow> ('l \<Rightarrow> gpusize) \<Rightarrow> 'l list \<Rightarrow> 'l LinkablePipeline
    \<Rightarrow> Result \<times> 'l LinkablePipeline" where
  "LinkWithLibraries compatible resolve ppLibraryList this =
     (if kind this = Graphics then (ErrorUnavailable, this)
      else if \<not> list_all compatible ppLibraryList then (ErrorBadPipelineData, this)
      else (Success, this\<lparr>linkState := fold (link_one resolve) ppLibraryList (linkState this)\<rparr>))"

text \<open>
  Concrete inputs for the examples: a run of calls on a pipeline; a compute and a
  graphics pipeline, with library 1 linked to the former; libraries below 10 are the
  compatible ones and library \<open>l\<close> resolves to address \<open>256 * l\<close>.
\<close>

definition pipe_run0 :: "nat pipeline_call list" where
  "pipe_run0 = [CallGetClientData, CallVirtual Suc, CallGetClientData]"

definition pipe_cmp :: "nat LinkablePipeline" where
  "pipe_cmp = \<lparr>kind = Compute, linkState = [(1, 256)]\<rparr>"

definition pipe_gfx :: "nat LinkablePipeline" where
  "pipe_gfx = \<lparr>kind = Graphics, linkState = [(1, 256)]\<rparr>"

definition compat0 :: "nat \<Rightarrow> bool" where
  "compat0 l = (l < 10)"

definition resolve0 :: "nat \<Rightarrow> gpusize" where
  "resolve0 l = 256 * of_nat l"

section \<open>Memory and call-case lemmas\<close>

lemma upt4: "[0..<4] = [0, 1, 2, Suc 2]"
  by code_simp

lemma upt8: "[0..<8] = [0, 1, 2, Suc 2, 4, 5, 6, 7]"
  by code_simp

lemma rcat0: "word_rcat [0::8 word, 0, 0, 0] = (0::32 word)"
  by (simp add: word_rcat_def)

lemma byte_of_0: "byte_of i 0 = 0"
  by (simp add: byte_of_def)

lemma trace_log_event: "trace (log_event e w) = trace w @ [e]"
  by (simp add: log_event_def)

lemma contents_log_event: "contents (log_event e w) = contents w"
  by (simp add: log_event_def)

lemma load_u32_log_event: "load_u32 p (log_event e w) = load_u32 p w"
  by (simp add: load_u32_def log_event_def)

lemma load_store_u32: "load_u32 (h, a) (store_u32 (h, a) 0 w) = 0"
  by (simp add: load_u32_def store_u32_def contents_log_event upt4 byte_of_0 rcat0)

lemma load_store_u64_lo: "load_u32 (h, a) (store_u64 (h, a) 0 w) = 0"
  by (simp add: load_u32_def store_u64_def contents_log_event upt8 byte_of_0 rcat0)

lemma load_store_u64_hi: "load_u32 (h, a + 4) (store_u64 (h, a) 0 w) = 0"
  by (simp add: load_u32_def store_u64_def contents_log_event upt8 byte_of_0 rcat0)

lemma trace_store_u32: "trace (store_u32 p v w) = trace w @ [EvStore (fst p) (snd p) 4]"
  by (simp add: store_u32_def log_event_def)

lemma trace_store_u64: "trace (store_u64 p v w) = trace w @ [EvStore (fst p) (snd p) 8]"
  by (simp add: store_u64_def log_event_def)

lemma bind_timestamps_sel:
  "Memory (m_exclusiveExecTs (bind_timestamps need h off q)) = Some h"
  "Offset (m_exclusiveExecTs (bind_timestamps need h off q)) = off"
  "IsBound (m_exclusiveExecTs (bind_timestamps need h off q))"
  "m_waitForIdleTs (bind_timestamps True h off q) = bound_at h (off + 4)"
  "m_waitForIdleTs (bind_timestamps False h off q) = m_waitForIdleTs q"
  "Memory (bound_at h a) = Some h"
  "Offset (bound_at h a) = a"
  "IsBound (bound_at h a)"
  by (simp_all add: bind_timestamps_def bound_at_def Memory_def Offset_def IsBound_def)

text \<open>
  The four ways a call of \<open>CreateTimestampMem\<close> can go, by what the collaborators
  answer, and the result in each.
\<close>

lemma CTM_cases:
  obtains (alloc_failed) "fst (allocReply env) \<noteq> Success"
  | (alloc_null) off where "allocReply env = (Success, None, off)"
  | (map_failed) h off where "allocReply env = (Success, Some h, off)" "mapReply env \<noteq> Success"
  | (mapped) h off where "allocReply env = (Success, Some h, off)" "mapReply env = Success"
  by (cases "allocReply env"; cases "fst (snd (allocReply env))";
      cases "mapReply env = Success"; cases "fst (allocReply env) = Success"; force)

lemma CTM_alloc_failed:
  assumes "fst (allocReply env) \<noteq> Success"
  shows "CreateTimestampMem need env q w =
           Some (fst (allocReply env), q,
                 log_event (EvAllocateGpuMem (timestampCreateInfo need) timestampInternalInfo False) w)"
  using assms by (cases "allocReply env") (simp add: CreateTimestampMem_def Let_def)

lemma CTM_alloc_null:
  assumes "allocReply env = (Success, None, off)"
  shows "CreateTimestampMem need env q w = None"
  using assms by (simp add: CreateTimestampMem_def Let_def Map_def Update_def)

lemma CTM_map_failed:
  assumes "allocReply env = (Success, Some h, off)" and "mapReply env \<noteq> Success"
  shows "CreateTimestampMem need env q w =
           Some (mapReply env, bind_timestamps need h off q,
                 log_event (EvMap h)
                   (log_event (EvAllocateGpuMem (timestampCreateInfo need) timestampInternalInfo False) w))"
  using assms
  by (simp add: CreateTimestampMem_def Let_def Map_def Update_def bind_timestamps_def bound_at_def)

lemma CTM_mapped:
  assumes "allocReply env = (Success, Some h, off)" and "mapReply env = Success"
  shows "CreateTimestampMem need env q w =
           Some (unmapReply env, bind_timestamps need h off q,
                 log_event (EvUnmap h)
                   ((if need then store_u64 (h, off) 0 else store_u32 (h, off) 0)
                     (log_event (EvMap h)
                       (log_event (EvAllocateGpuMem (timestampCreateInfo need) timestampInternalInfo False) w))))"
  using assms
  by (simp add: CreateTimestampMem_def Let_def Map_def Unmap_def Update_def bind_timestamps_def bound_at_def)

lemma env_ok_result:
  "CreateTimestampMem need env_ok q w
     = Some (Success, bind_timestamps need 7 16 q,
             log_event (EvUnmap 7)
               ((if need then store_u64 (7, 16) 0 else store_u32 (7, 16) 0)
                 (log_event (EvMap 7)
                   (log_event (EvAllocateGpuMem (timestampCreateInfo need) timestampInternalInfo False) w))))"
  using CTM_mapped [of env_ok 7 16 need q w] by (simp add: env_ok_def)

lemma env_map_fail_runs:
  "CreateTimestampMem need env_map_fail q w
     = Some (OtherResult 2, bind_timestamps need 7 16 q,
             log_event (EvMap 7)
               (log_event (EvAllocateGpuMem (timestampCreateInfo need) timestampInternalInfo False) w))"
  using CTM_map_failed [of env_map_fail 7 16 need q w] by (simp add: env_map_fail_def)

lemma env_alloc_fail_runs:
  "CreateTimestampMem need env_alloc_fail q w
     = Some (OtherResult 1, q,
             log_event (EvAllocateGpuMem (timestampCreateInfo need) timestampInternalInfo False) w)"
  using CTM_alloc_failed [of env_alloc_fail need q w] by (simp add: env_alloc_fail_def)

lemma CTM_trace:
  assumes "CreateTimestampMem need env q w = Some (r, q', w')"
  shows "\<exists>rest. trace w' = trace w @ EvAllocateGpuMem (timestampCreateInfo need) timestampInternalInfo False # rest
            \<and> filter is_alloc rest = []"
proof (cases env rule: CTM_cases)
  case alloc_failed
  from CTM_alloc_failed [OF this, of need q w] assms show ?thesis
    by (auto simp: trace_log_event)
next
  case (alloc_null off)
  from CTM_alloc_null [OF this, of need q w] assms show ?thesis by simp
next
  case (map_failed h off)
  from CTM_map_failed [OF this, of need q w] assms show ?thesis
    by (auto simp: trace_log_event)
next
  case (mapped h off)
  from CTM_mapped [OF this, of need q w] assms show ?thesis
    by (cases need) (auto simp: trace_log_event trace_store_u32 trace_store_u64)
qed

lemma CTM_changed_bindings:
  assumes "CreateTimestampMem need env q w = Some (r, q', w')" and "q' \<noteq> q"
  shows "fst (allocReply env) = Success"
    and "r \<noteq> Success \<Longrightarrow> mapReply env \<noteq> Success \<or> unmapReply env \<noteq> Success"
proof -
  show "fst (allocReply env) = Success"
  proof (rule ccontr)
    assume "fst (allocReply env) \<noteq> Success"
    from CTM_alloc_failed [OF this, of need q w] assms show False by simp
  qed
  assume r: "r \<noteq> Success"
  show "mapReply env \<noteq> Success \<or> unmapReply env \<noteq> Success"
  proof (cases env rule: CTM_cases)
    case alloc_failed
    from CTM_alloc_failed [OF this, of need q w] assms show ?thesis by simp
  next
    case (alloc_null off)
    from CTM_alloc_null [OF this, of need q w] assms show ?thesis by simp
  next
    case (map_failed h off)
    then show ?thesis by simp
  next
    case (mapped h off)
    from CTM_mapped [OF this, of need q w] assms r show ?thesis by auto
  qed
qed

lemma CTM_invariant:
  assumes "CreateTimestampMem need env q w = Some (r, q', w')" and "ts_invariant q"
  shows "ts_invariant q'"
proof (cases env rule: CTM_cases)
  case alloc_failed
  from CTM_alloc_failed [OF this, of need q w] assms show ?thesis by simp
next
  case (alloc_null off)
  from CTM_alloc_null [OF this, of need q w] assms show ?thesis by simp
next
  case (map_failed h off)
  from CTM_map_failed [OF this, of need q w] assms show ?thesis
    by (auto simp: ts_invariant_def bind_timestamps_sel)
next
  case (mapped h off)
  from CTM_mapped [OF this, of need q w] assms show ?thesis
    by (auto simp: ts_invariant_def bind_timestamps_sel)
qed

lemma CTM_wait_changed:
  assumes "CreateTimestampMem need env q w = Some (r, q', w')"
    and "m_waitForIdleTs q' \<noteq> m_waitForIdleTs q"
  shows "need \<and> IsBound (m_exclusiveExecTs q')
           \<and> Memory (m_waitForIdleTs q') = Memory (m_exclusiveExecTs q')
           \<and> Offset (m_waitForIdleTs q') = Offset (m_exclusiveExecTs q') + 4"
proof (cases env rule: CTM_cases)
  case alloc_failed
  from CTM_alloc_failed [OF this, of need q w] assms show ?thesis by simp
next
  case (alloc_null off)
  from CTM_alloc_null [OF this, of need q w] assms show ?thesis by simp
next
  case (map_failed h off)
  from CTM_map_failed [OF this, of need q w] assms show ?thesis
    by (cases need) (auto simp: bind_timestamps_sel)
next
  case (mapped h off)
  from CTM_mapped [OF this, of need q w] assms show ?thesis
    by (cases need) (auto simp: bind_timestamps_sel)
qed

lemma qc_call_step_invariant:
  assumes "qc_call_step c (q, w) = Some (q', w')" and "ts_invariant q"
  shows "ts_invariant q'"
proof (cases c)
  case (CallCreateTimestampMem need env)
  with assms(1) obtain r where "CreateTimestampMem need env q w = Some (r, q', w')"
    by (auto split: option.splits)
  from CTM_invariant [OF this assms(2)] show ?thesis .
next
  case (CallPreProcessSubmit out si)
  with assms show ?thesis by (simp split: prod.splits)
qed

lemma qc_run_invariant:
  "qc_run cs (q, w) = Some (q', w') \<Longrightarrow> ts_invariant q \<Longrightarrow> ts_invariant q'"
proof (induction cs arbitrary: q w)
  case Nil
  then show ?case by simp
next
  case (Cons c cs)
  from Cons.prems(1) obtain q1 w1 where
    s: "qc_call_step c (q, w) = Some (q1, w1)" and r: "qc_run cs (q1, w1) = Some (q', w')"
    by (auto split: option.splits)
  from qc_call_step_invariant [OF s Cons.prems(2)] have "ts_invariant q1" .
  from Cons.IH [OF r this] show ?case .
qed

lemma dtor_assertion:
  "ts_invariant q \<Longrightarrow> fst (QueueContext_dtor q w)"
  by (simp add: QueueContext_dtor_def ts_invariant_def Let_def)

lemma run0_runs:
  "\<exists>w. qc_run run0 (QueueContext_ctor, world0)
         = Some (bind_timestamps False 7 16 (bind_timestamps True 7 16 QueueContext_ctor), w)"
  by (simp add: run0_def env_map_fail_runs env_ok_result env_alloc_fail_runs PreProcessSubmit_def)

lemma CTM_success:
  assumes "CreateTimestampMem need env q w = Some (Success, q', w')"
  shows "\<exists>h off. allocReply env = (Success, Some h, off)
           \<and> IsBound (m_exclusiveExecTs q')
           \<and> Memory (m_exclusiveExecTs q') = Some h
           \<and> Offset (m_exclusiveExecTs q') = off + 0
           \<and> (need \<longrightarrow> IsBound (m_waitForIdleTs q')
                      \<and> Memory (m_waitForIdleTs q') = Some h
                      \<and> Offset (m_waitForIdleTs q') = off + 4)
           \<and> (\<not> need \<longrightarrow> m_waitForIdleTs q' = m_waitForIdleTs q)
           \<and> trace w' = trace w @
                 [EvAllocateGpuMem (timestampCreateInfo need) timestampInternalInfo False,
                  EvMap h, EvStore h off (if need then 8 else 4), EvUnmap h]
           \<and> timestamp_value (m_exclusiveExecTs q') w' = Some 0
           \<and> (need \<longrightarrow> timestamp_value (m_waitForIdleTs q') w' = Some 0)"
proof (cases env rule: CTM_cases)
  case alloc_failed
  from CTM_alloc_failed [OF this, of need q w] assms alloc_failed show ?thesis by simp
next
  case (alloc_null off)
  from CTM_alloc_null [OF this, of need q w] assms show ?thesis by simp
next
  case (map_failed h off)
  from CTM_map_failed [OF this, of need q w] assms map_failed show ?thesis by simp
next
  case (mapped h off)
  note r = CTM_mapped [OF this, of need q w]
  show ?thesis
  proof (cases need)
    case True
    with r assms have q': "q' = bind_timestamps True h off q"
      and w': "w' = log_event (EvUnmap h) (store_u64 (h, off) 0 (log_event (EvMap h)
                 (log_event (EvAllocateGpuMem (timestampCreateInfo True) timestampInternalInfo False) w)))"
      by simp_all
    show ?thesis
      unfolding q' w' using True mapped(1)
      by (simp add: bind_timestamps_sel timestamp_value_def trace_log_event trace_store_u64
            load_u32_log_event load_store_u64_lo load_store_u64_hi)
  next
    case False
    with r assms have q': "q' = bind_timestamps False h off q"
      and w': "w' = log_event (EvUnmap h) (store_u32 (h, off) 0 (log_event (EvMap h)
                 (log_event (EvAllocateGpuMem (timestampCreateInfo False) timestampInternalInfo False) w)))"
      by simp_all
    show ?thesis
      unfolding q' w' using False mapped(1)
      by (simp add: bind_timestamps_sel timestamp_value_def trace_log_event trace_store_u32
            load_u32_log_event load_store_u32)
  qed
qed

lemma CTM_returns:
  "(CreateTimestampMem need env q w = None) = (\<exists>off. allocReply env = (Success, None, off))"
proof (cases env rule: CTM_cases)
  case alloc_failed
  from CTM_alloc_failed [OF this, of need q w] alloc_failed show ?thesis by auto
next
  case (alloc_null off)
  from CTM_alloc_null [OF this, of need q w] alloc_null show ?thesis by simp
next
  case (map_failed h off)
  from CTM_map_failed [OF this, of need q w] map_failed show ?thesis by simp
next
  case (mapped h off)
  from CTM_mapped [OF this, of need q w] mapped show ?thesis by simp
qed

lemma CTM_request:
  assumes "CreateTimestampMem need env q w = Some (r, q', w')"
  shows "\<exists>ci ii. filter is_alloc (drop (length (trace w)) (trace w')) = [EvAllocateGpuMem ci ii False]
           \<and> GpuMemoryCreateInfo.size ci = (if need then 8 else 4)
           \<and> alignment ci = 4
           \<and> heapCount ci = 2
           \<and> take (heapCount ci) (heaps ci) = [GpuHeapLocal, GpuHeapGartUswc]
           \<and> priority ci = Normal
           \<and> vaRange ci = Default
           \<and> alwaysResident ii"
proof -
  from CTM_trace [OF assms] obtain rest where
    "trace w' = trace w @ EvAllocateGpuMem (timestampCreateInfo need) timestampInternalInfo False # rest"
    "filter is_alloc rest = []" by blast
  then have "filter is_alloc (drop (length (trace w)) (trace w'))
      = [EvAllocateGpuMem (timestampCreateInfo need) timestampInternalInfo False]"
    by simp
  moreover have "GpuMemoryCreateInfo.size (timestampCreateInfo need) = (if need then 8 else 4)"
    "alignment (timestampCreateInfo need) = 4"
    "heapCount (timestampCreateInfo need) = 2"
    "take (heapCount (timestampCreateInfo need)) (heaps (timestampCreateInfo need))
       = [GpuHeapLocal, GpuHeapGartUswc]"
    "priority (timestampCreateInfo need) = Normal"
    "vaRange (timestampCreateInfo need) = Default"
    "alwaysResident timestampInternalInfo"
    by (simp_all add: timestampCreateInfo_def timestampInternalInfo_def)
  ultimately show ?thesis by blast
qed

section \<open>Properties of the queue context\<close>

text \<open>
  C6: for every input submission record and every prior content of the output record,
  the base \<open>PreProcessSubmit\<close> returns success and leaves zero preamble streams, zero
  postamble streams and a zero paging fence in the output record; the three fields it
  writes do not depend on what the output record held before, and the whole result does
  not depend on the input submission.
\<close>

theorem PreProcessSubmit_noop:
  "fst (PreProcessSubmit out si) = Success
   \<and> numPreambleCmdStreams (snd (PreProcessSubmit out si)) = 0
   \<and> numPostambleCmdStreams (snd (PreProcessSubmit out si)) = 0
   \<and> pagingFence (snd (PreProcessSubmit out si)) = 0
   \<and> InternalSubmitInfo.more (snd (PreProcessSubmit out si)) = InternalSubmitInfo.more out
   \<and> PreProcessSubmit out si = PreProcessSubmit out si'
   \<and> InternalSubmitInfo.truncate (snd (PreProcessSubmit out si))
       = InternalSubmitInfo.truncate (snd (PreProcessSubmit out' si'))"
  by (simp add: PreProcessSubmit_def InternalSubmitInfo.truncate_def)

text \<open>
  C1: for either value of \<open>needWaitForIdleMem\<close>, when \<open>CreateTimestampMem\<close> returns
  success, the memory manager answered with an allocation \<open>h\<close> at offset \<open>off\<close>, the
  exclusive-exec timestamp is bound to \<open>h\<close> at \<open>off\<close> (offset 0 of the allocation),
  and, when \<open>needWaitForIdleMem\<close> holds, the wait-for-idle timestamp is bound to the same
  \<open>h\<close> at \<open>off + 4\<close> (otherwise it is left as it was). After the allocation request the
  call maps the memory once, stores zero once (8 bytes when both timestamps exist, else
  4 bytes) and unmaps, in this order and nothing else; afterwards the exclusive-exec
  timestamp reads zero and, when it was requested, so does the wait-for-idle timestamp.
  The call does return success when the memory manager answers with an allocation and
  both mapping and unmapping succeed.
\<close>

theorem CreateTimestampMem_success:
  "(CreateTimestampMem need env q w = Some (Success, q', w') \<longrightarrow>
      (\<exists>h off. allocReply env = (Success, Some h, off)
           \<and> IsBound (m_exclusiveExecTs q')
           \<and> Memory (m_exclusiveExecTs q') = Some h
           \<and> Offset (m_exclusiveExecTs q') = off + 0
           \<and> (need \<longrightarrow> IsBound (m_waitForIdleTs q')
                      \<and> Memory (m_waitForIdleTs q') = Some h
                      \<and> Offset (m_waitForIdleTs q') = off + 4)
           \<and> (\<not> need \<longrightarrow> m_waitForIdleTs q' = m_waitForIdleTs q)
           \<and> trace w' = trace w @
                 [EvAllocateGpuMem (timestampCreateInfo need) timestampInternalInfo False,
                  EvMap h, EvStore h off (if need then 8 else 4), EvUnmap h]
           \<and> timestamp_value (m_exclusiveExecTs q') w' = Some 0
           \<and> (need \<longrightarrow> timestamp_value (m_waitForIdleTs q') w' = Some 0)))
   \<and> (allocReply env = (Success, Some hm, offm) \<and> mapReply env = Success
        \<and> unmapReply env = Success \<longrightarrow>
          (\<exists>q1 w1. CreateTimestampMem need env q w = Some (Success, q1, w1)))"
proof (intro conjI impI)
  assume "CreateTimestampMem need env q w = Some (Success, q', w')"
  from CTM_success [OF this]
  show "\<exists>h off. allocReply env = (Success, Some h, off)
           \<and> IsBound (m_exclusiveExecTs q')
           \<and> Memory (m_exclusiveExecTs q') = Some h
           \<and> Offset (m_exclusiveExecTs q') = off + 0
           \<and> (need \<longrightarrow> IsBound (m_waitForIdleTs q')
                      \<and> Memory (m_waitForIdleTs q') = Some h
                      \<and> Offset (m_waitForIdleTs q') = off + 4)
           \<and> (\<not> need \<longrightarrow> m_waitForIdleTs q' = m_waitForIdleTs q)
           \<and> trace w' = trace w @
                 [EvAllocateGpuMem (timestampCreateInfo need) timestampInternalInfo False,
                  EvMap h, EvStore h off (if need then 8 else 4), EvUnmap h]
           \<and> timestamp_value (m_exclusiveExecTs q') w' = Some 0
           \<and> (need \<longrightarrow> timestamp_value (m_waitForIdleTs q') w' = Some 0)" .
next
  assume a: "allocReply env = (Success, Some hm, offm) \<and> mapReply env = Success
        \<and> unmapReply env = Success"
  then have "allocReply env = (Success, Some hm, offm)" "mapReply env = Success" by simp_all
  from CTM_mapped [OF this, of need q w] a
  show "\<exists>q1 w1. CreateTimestampMem need env q w = Some (Success, q1, w1)" by simp
qed

theorem CreateTimestampMem_success_witness:
  "allocReply env_ok = (Success, Some 7, 16) \<and> mapReply env_ok = Success
   \<and> unmapReply env_ok = Success
   \<and> (\<exists>q' w'. CreateTimestampMem True env_ok QueueContext_ctor world0 = Some (Success, q', w')
     \<and> Memory (m_exclusiveExecTs q') = Some 7 \<and> Offset (m_exclusiveExecTs q') = 16
     \<and> Memory (m_waitForIdleTs q') = Some 7 \<and> Offset (m_waitForIdleTs q') = 20
     \<and> timestamp_value (m_exclusiveExecTs q') w' = Some 0
     \<and> timestamp_value (m_waitForIdleTs q') w' = Some 0
     \<and> timestamp_value (bound_at 7 16) world0 \<noteq> Some 0)"
proof -
  have e: "allocReply env_ok = (Success, Some 7, 16) \<and> mapReply env_ok = Success
             \<and> unmapReply env_ok = Success"
    by (simp add: env_ok_def)
  with CreateTimestampMem_success [where env = env_ok and hm = 7 and offm = 16 and need = True
      and q = QueueContext_ctor and w = world0]
  obtain q' w' where h: "CreateTimestampMem True env_ok QueueContext_ctor world0 = Some (Success, q', w')"
    by blast
  have "timestamp_value (bound_at 7 16) world0 \<noteq> Some 0"
    by (simp add: timestamp_value_def bind_timestamps_sel load_u32_def world0_def word_rcat_def)
  with CreateTimestampMem_success [where env = env_ok and need = True
      and q = QueueContext_ctor and w = world0 and q' = q' and w' = w'] h e
  show ?thesis by auto
qed

text \<open>
  C2: destroying a queue context whose exclusive-exec timestamp is bound makes exactly
  one call of \<open>FreeGpuMem\<close>, for the exclusive-exec allocation and offset, whether or not
  the wait-for-idle timestamp is bound too, touches nothing else in the world and leaves
  both timestamps unbound; destroying one with neither timestamp bound changes nothing
  and frees nothing.
\<close>

theorem dtor_frees_once:
  "(IsBound (m_exclusiveExecTs q) \<longrightarrow>
      (case QueueContext_dtor q w of (a, q', w') \<Rightarrow>
         trace w' = trace w @ [EvFreeGpuMem (Memory (m_exclusiveExecTs q)) (Offset (m_exclusiveExecTs q))]
         \<and> length (filter is_free (drop (length (trace w)) (trace w'))) = 1
         \<and> contents w' = contents w
         \<and> \<not> IsBound (m_exclusiveExecTs q') \<and> \<not> IsBound (m_waitForIdleTs q')))
   \<and> (\<not> IsBound (m_exclusiveExecTs q) \<and> \<not> IsBound (m_waitForIdleTs q) \<longrightarrow>
        QueueContext_dtor q w = (True, q, w))"
  by (simp add: QueueContext_dtor_def Let_def IsBound_def Update_def Memory_def Offset_def log_event_def)

theorem dtor_frees_once_witness:
  "IsBound (m_exclusiveExecTs (bind_timestamps True 7 16 QueueContext_ctor))
   \<and> IsBound (m_waitForIdleTs (bind_timestamps True 7 16 QueueContext_ctor))
   \<and> (case QueueContext_dtor (bind_timestamps True 7 16 QueueContext_ctor) world0 of
         (a, q', w') \<Rightarrow> trace w' = [EvFreeGpuMem (Some 7) 16]
            \<and> \<not> IsBound (m_exclusiveExecTs q') \<and> \<not> IsBound (m_waitForIdleTs q'))
   \<and> IsBound (m_exclusiveExecTs (bind_timestamps False 7 16 QueueContext_ctor))
   \<and> \<not> IsBound (m_waitForIdleTs (bind_timestamps False 7 16 QueueContext_ctor))
   \<and> (case QueueContext_dtor (bind_timestamps False 7 16 QueueContext_ctor) world0 of
         (a, q', w') \<Rightarrow> trace w' = [EvFreeGpuMem (Some 7) 16]
            \<and> \<not> IsBound (m_exclusiveExecTs q') \<and> \<not> IsBound (m_waitForIdleTs q'))
   \<and> \<not> IsBound (m_exclusiveExecTs QueueContext_ctor) \<and> \<not> IsBound (m_waitForIdleTs QueueContext_ctor)
   \<and> QueueContext_dtor QueueContext_ctor world0 = (True, QueueContext_ctor, world0)"
  using dtor_frees_once [of "bind_timestamps True 7 16 QueueContext_ctor" world0]
    dtor_frees_once [of "bind_timestamps False 7 16 QueueContext_ctor" world0]
    dtor_frees_once [of QueueContext_ctor world0]
  by (simp add: bind_timestamps_def bound_at_def QueueContext_ctor_def IsBound_def Memory_def
        Offset_def world0_def split: prod.splits)

text \<open>
  C3: in every state that a run of calls reaches from a freshly constructed queue
  context, a bound wait-for-idle timestamp implies a bound exclusive-exec timestamp, and
  the destructor's assertion holds when the context is destroyed there; a call of
  \<open>CreateTimestampMem\<close> from such a state that changes the wait-for-idle binding was
  asked to, has bound the exclusive-exec timestamp, and has bound both to the same
  allocation, the wait-for-idle timestamp 4 bytes further.
\<close>

theorem timestamp_invariant:
  assumes "qc_run cs (QueueContext_ctor, w0) = Some (q, w)"
  shows "ts_invariant q
         \<and> (IsBound (m_waitForIdleTs q) \<longrightarrow> IsBound (m_exclusiveExecTs q))
         \<and> fst (QueueContext_dtor q w)
         \<and> (\<forall>need env r q' w'.
               CreateTimestampMem need env q w = Some (r, q', w')
               \<and> m_waitForIdleTs q' \<noteq> m_waitForIdleTs q \<longrightarrow>
                 need \<and> IsBound (m_exclusiveExecTs q')
                 \<and> Memory (m_waitForIdleTs q') = Memory (m_exclusiveExecTs q')
                 \<and> Offset (m_waitForIdleTs q') = Offset (m_exclusiveExecTs q') + 4)"
proof -
  have "ts_invariant QueueContext_ctor"
    by (simp add: ts_invariant_def QueueContext_ctor_def IsBound_def)
  from qc_run_invariant [OF assms this] have i: "ts_invariant q" .
  then have "IsBound (m_waitForIdleTs q) \<longrightarrow> IsBound (m_exclusiveExecTs q)"
    by (simp add: ts_invariant_def)
  with i dtor_assertion [OF i, of w] CTM_wait_changed [of _ _ q w] show ?thesis
    by blast
qed

theorem timestamp_invariant_witness:
  "\<exists>q w. qc_run run0 (QueueContext_ctor, world0) = Some (q, w)
     \<and> IsBound (m_waitForIdleTs q) \<and> IsBound (m_exclusiveExecTs q)
     \<and> fst (QueueContext_dtor q w)
     \<and> (\<exists>r q' w'. CreateTimestampMem True env_unmap_fail q w = Some (r, q', w')
           \<and> m_waitForIdleTs q' \<noteq> m_waitForIdleTs q
           \<and> Memory (m_waitForIdleTs q') = Memory (m_exclusiveExecTs q'))"
proof -
  define q where "q = bind_timestamps False 7 16 (bind_timestamps True 7 16 QueueContext_ctor)"
  obtain w where h: "qc_run run0 (QueueContext_ctor, world0) = Some (q, w)"
    unfolding q_def using run0_runs by blast
  have b: "IsBound (m_waitForIdleTs q)"
    by (simp add: q_def bind_timestamps_sel)
  obtain r q' w' where c: "CreateTimestampMem True env_unmap_fail q w = Some (r, q', w')"
    and q': "q' = bind_timestamps True 7 24 q"
    using CTM_mapped [of env_unmap_fail 7 24 True q w] by (simp add: env_unmap_fail_def)
  have d: "m_waitForIdleTs q' \<noteq> m_waitForIdleTs q"
    by (simp add: q' q_def bind_timestamps_sel bound_at_def)
  from timestamp_invariant [OF h] b c d h show ?thesis
    by blast
qed

text \<open>
  C4: when the memory manager's allocation fails, \<open>CreateTimestampMem\<close> returns the
  memory manager's code and the bindings are as before the call. When the allocation
  succeeds with \<open>h\<close> at \<open>off\<close> and mapping fails, it returns the code of the mapping;
  when mapping succeeds and unmapping fails, it returns the code of the unmapping. In
  both cases the exclusive-exec timestamp stays bound to \<open>h\<close> at \<open>off\<close> and, if
  requested, the wait-for-idle timestamp to \<open>h\<close> at \<open>off + 4\<close>: nothing is rolled back.
\<close>

theorem CreateTimestampMem_failure:
  "(fst (allocReply env) \<noteq> Success \<longrightarrow>
      (\<exists>w'. CreateTimestampMem need env q w = Some (fst (allocReply env), q, w')))
   \<and> (allocReply env = (Success, Some h, off) \<and> mapReply env \<noteq> Success \<longrightarrow>
        (\<exists>q' w'. CreateTimestampMem need env q w = Some (mapReply env, q', w')
           \<and> Memory (m_exclusiveExecTs q') = Some h \<and> Offset (m_exclusiveExecTs q') = off
           \<and> (need \<longrightarrow> Memory (m_waitForIdleTs q') = Some h \<and> Offset (m_waitForIdleTs q') = off + 4)
           \<and> (\<not> need \<longrightarrow> m_waitForIdleTs q' = m_waitForIdleTs q)))
   \<and> (allocReply env = (Success, Some h, off) \<and> mapReply env = Success \<and> unmapReply env \<noteq> Success \<longrightarrow>
        (\<exists>q' w'. CreateTimestampMem need env q w = Some (unmapReply env, q', w')
           \<and> Memory (m_exclusiveExecTs q') = Some h \<and> Offset (m_exclusiveExecTs q') = off
           \<and> (need \<longrightarrow> Memory (m_waitForIdleTs q') = Some h \<and> Offset (m_waitForIdleTs q') = off + 4)
           \<and> (\<not> need \<longrightarrow> m_waitForIdleTs q' = m_waitForIdleTs q)))"
proof (intro conjI impI)
  assume "fst (allocReply env) \<noteq> Success"
  then show "\<exists>w'. CreateTimestampMem need env q w = Some (fst (allocReply env), q, w')"
    by (simp add: CTM_alloc_failed)
next
  assume "allocReply env = (Success, Some h, off) \<and> mapReply env \<noteq> Success"
  then have "CreateTimestampMem need env q w =
           Some (mapReply env, bind_timestamps need h off q,
                 log_event (EvMap h)
                   (log_event (EvAllocateGpuMem (timestampCreateInfo need) timestampInternalInfo False) w))"
    by (simp add: CTM_map_failed)
  then show "\<exists>q' w'. CreateTimestampMem need env q w = Some (mapReply env, q', w')
           \<and> Memory (m_exclusiveExecTs q') = Some h \<and> Offset (m_exclusiveExecTs q') = off
           \<and> (need \<longrightarrow> Memory (m_waitForIdleTs q') = Some h \<and> Offset (m_waitForIdleTs q') = off + 4)
           \<and> (\<not> need \<longrightarrow> m_waitForIdleTs q' = m_waitForIdleTs q)"
    by (cases need) (simp_all add: bind_timestamps_sel)
next
  assume "allocReply env = (Success, Some h, off) \<and> mapReply env = Success \<and> unmapReply env \<noteq> Success"
  then have "CreateTimestampMem need env q w =
           Some (unmapReply env, bind_timestamps need h off q,
                 log_event (EvUnmap h)
                   ((if need then store_u64 (h, off) 0 else store_u32 (h, off) 0)
                     (log_event (EvMap h)
                       (log_event (EvAllocateGpuMem (timestampCreateInfo need) timestampInternalInfo False) w))))"
    by (simp add: CTM_mapped)
  then show "\<exists>q' w'. CreateTimestampMem need env q w = Some (unmapReply env, q', w')
           \<and> Memory (m_exclusiveExecTs q') = Some h \<and> Offset (m_exclusiveExecTs q') = off
           \<and> (need \<longrightarrow> Memory (m_waitForIdleTs q') = Some h \<and> Offset (m_waitForIdleTs q') = off + 4)
           \<and> (\<not> need \<longrightarrow> m_waitForIdleTs q' = m_waitForIdleTs q)"
    by (cases need) (simp_all add: bind_timestamps_sel)
qed

theorem CreateTimestampMem_failure_witness:
  "fst (allocReply env_alloc_fail) \<noteq> Success
   \<and> (\<exists>w'. CreateTimestampMem True env_alloc_fail QueueContext_ctor world0
              = Some (OtherResult 1, QueueContext_ctor, w'))
   \<and> allocReply env_map_fail = (Success, Some 7, 16) \<and> mapReply env_map_fail \<noteq> Success
   \<and> (\<exists>q' w'. CreateTimestampMem True env_map_fail QueueContext_ctor world0
              = Some (OtherResult 2, q', w')
         \<and> Memory (m_exclusiveExecTs q') = Some 7 \<and> Offset (m_waitForIdleTs q') = 20)
   \<and> allocReply env_unmap_fail = (Success, Some 7, 24) \<and> mapReply env_unmap_fail = Success
   \<and> unmapReply env_unmap_fail \<noteq> Success
   \<and> (\<exists>q' w'. CreateTimestampMem False env_unmap_fail QueueContext_ctor world0
              = Some (OtherResult 3, q', w')
         \<and> Memory (m_exclusiveExecTs q') = Some 7
         \<and> m_waitForIdleTs q' = m_waitForIdleTs QueueContext_ctor)"
  using CreateTimestampMem_failure [where env = env_alloc_fail and need = True
        and q = QueueContext_ctor and w = world0]
    CreateTimestampMem_failure [where env = env_map_fail and h = 7 and off = 16 and need = True
        and q = QueueContext_ctor and w = world0]
    CreateTimestampMem_failure [where env = env_unmap_fail and h = 7 and off = 24 and need = False
        and q = QueueContext_ctor and w = world0]
  by (simp add: env_alloc_fail_def env_map_fail_def env_unmap_fail_def) blast

text \<open>
  C5: a call of \<open>CreateTimestampMem\<close> returns whenever the memory manager's success
  comes with an allocation, and a call that returns has made exactly one allocation request
  to the memory manager: size 8 when \<open>needWaitForIdleMem\<close> holds and 4 otherwise,
  alignment 4, a heap count of 2 with the heaps device-local then host-visible uncached
  (\<open>GpuHeapLocal\<close>, \<open>GpuHeapGartUswc\<close>), normal priority, the default virtual-address
  range, and the always-resident flag set.
\<close>

theorem CreateTimestampMem_request:
  "((fst (allocReply env) = Success \<longrightarrow> fst (snd (allocReply env)) \<noteq> None) \<longrightarrow>
      (\<exists>r1 q1 w1. CreateTimestampMem need env q w = Some (r1, q1, w1)))
   \<and> (CreateTimestampMem need env q w = Some (r, q', w') \<longrightarrow>
        (\<exists>ci ii. filter is_alloc (drop (length (trace w)) (trace w')) = [EvAllocateGpuMem ci ii False]
           \<and> GpuMemoryCreateInfo.size ci = (if need then 8 else 4)
           \<and> alignment ci = 4
           \<and> heapCount ci = 2
           \<and> take (heapCount ci) (heaps ci) = [GpuHeapLocal, GpuHeapGartUswc]
           \<and> priority ci = Normal
           \<and> vaRange ci = Default
           \<and> alwaysResident ii))"
proof (intro conjI impI)
  assume a: "fst (allocReply env) = Success \<longrightarrow> fst (snd (allocReply env)) \<noteq> None"
  have "CreateTimestampMem need env q w \<noteq> None"
  proof
    assume "CreateTimestampMem need env q w = None"
    then obtain off where "allocReply env = (Success, None, off)"
      using CTM_returns [of need env q w] by blast
    with a show False by simp
  qed
  then show "\<exists>r1 q1 w1. CreateTimestampMem need env q w = Some (r1, q1, w1)"
    by (cases "CreateTimestampMem need env q w") auto
next
  assume "CreateTimestampMem need env q w = Some (r, q', w')"
  from CTM_request [OF this]
  show "\<exists>ci ii. filter is_alloc (drop (length (trace w)) (trace w')) = [EvAllocateGpuMem ci ii False]
           \<and> GpuMemoryCreateInfo.size ci = (if need then 8 else 4)
           \<and> alignment ci = 4
           \<and> heapCount ci = 2
           \<and> take (heapCount ci) (heaps ci) = [GpuHeapLocal, GpuHeapGartUswc]
           \<and> priority ci = Normal
           \<and> vaRange ci = Default
           \<and> alwaysResident ii" .
qed

theorem CreateTimestampMem_request_witness:
  "fst (allocReply env_ok) = Success \<and> fst (snd (allocReply env_ok)) = Some 7
   \<and> (\<exists>r q' w' ci ii. CreateTimestampMem True env_ok QueueContext_ctor world0 = Some (r, q', w')
     \<and> filter is_alloc (trace w') = [EvAllocateGpuMem ci ii False]
     \<and> GpuMemoryCreateInfo.size ci = 8 \<and> alignment ci = 4 \<and> alwaysResident ii)"
proof -
  have e: "fst (allocReply env_ok) = Success \<and> fst (snd (allocReply env_ok)) = Some 7"
    by (simp add: env_ok_def)
  with CreateTimestampMem_request [where env = env_ok and need = True
      and q = QueueContext_ctor and w = world0]
  obtain r q' w' where h: "CreateTimestampMem True env_ok QueueContext_ctor world0 = Some (r, q', w')"
    by blast
  with CreateTimestampMem_request [where env = env_ok and need = True
      and q = QueueContext_ctor and w = world0 and r = r and q' = q' and w' = w'] e
  show ?thesis by (auto simp: world0_def)
qed

text \<open>
  C9: when the memory manager's allocation fails, \<open>CreateTimestampMem\<close> returns the
  failure with the queue context exactly as it was: a freshly constructed one stays
  with both timestamps unbound. Hence a failed call that has changed a binding had a
  successful allocation and a failing map or unmap.
\<close>

theorem alloc_failure_leaves_bindings:
  "(fst (allocReply env) \<noteq> Success \<longrightarrow>
      (\<exists>w'. CreateTimestampMem need env q w = Some (fst (allocReply env), q, w'))
      \<and> (\<exists>w'. CreateTimestampMem need env QueueContext_ctor w
                 = Some (fst (allocReply env), QueueContext_ctor, w'))
      \<and> \<not> IsBound (m_exclusiveExecTs QueueContext_ctor)
      \<and> \<not> IsBound (m_waitForIdleTs QueueContext_ctor))
   \<and> (CreateTimestampMem need env q w = Some (r, q', w') \<and> r \<noteq> Success \<and> q' \<noteq> q \<longrightarrow>
        fst (allocReply env) = Success \<and> (mapReply env \<noteq> Success \<or> unmapReply env \<noteq> Success))"
proof -
  have 1: "\<exists>w'. CreateTimestampMem need env q0 w = Some (fst (allocReply env), q0, w')"
    if "fst (allocReply env) \<noteq> Success" for q0
    using CTM_alloc_failed [OF that, of need q0 w] by blast
  have 2: "\<not> IsBound (m_exclusiveExecTs QueueContext_ctor)"
    "\<not> IsBound (m_waitForIdleTs QueueContext_ctor)"
    by (simp_all add: IsBound_def QueueContext_ctor_def)
  have 3: "fst (allocReply env) = Success \<and> (mapReply env \<noteq> Success \<or> unmapReply env \<noteq> Success)"
    if "CreateTimestampMem need env q w = Some (r, q', w')" "r \<noteq> Success" "q' \<noteq> q"
    using CTM_changed_bindings [OF that(1) that(3)] that(2) by blast
  from 1 2 3 show ?thesis by blast
qed

theorem alloc_failure_leaves_bindings_witness:
  "fst (allocReply env_alloc_fail) \<noteq> Success
   \<and> (\<exists>w'. CreateTimestampMem True env_alloc_fail QueueContext_ctor world0
              = Some (OtherResult 1, QueueContext_ctor, w'))
   \<and> (\<exists>q' w'. CreateTimestampMem True env_map_fail QueueContext_ctor world0
              = Some (OtherResult 2, q', w') \<and> q' \<noteq> QueueContext_ctor
         \<and> fst (allocReply env_map_fail) = Success
         \<and> (mapReply env_map_fail \<noteq> Success \<or> unmapReply env_map_fail \<noteq> Success))"
proof -
  have ne: "bind_timestamps True 7 16 QueueContext_ctor \<noteq> QueueContext_ctor"
    by (simp add: bind_timestamps_def bound_at_def QueueContext_ctor_def)
  from alloc_failure_leaves_bindings [where env = env_alloc_fail and need = True
      and q = QueueContext_ctor and w = world0]
  have "fst (allocReply env_alloc_fail) \<noteq> Success
   \<and> (\<exists>w'. CreateTimestampMem True env_alloc_fail QueueContext_ctor world0
              = Some (OtherResult 1, QueueContext_ctor, w'))"
    by (simp add: env_alloc_fail_def)
  moreover
  from alloc_failure_leaves_bindings [where env = env_map_fail and need = True
      and q = QueueContext_ctor and w = world0 and r = "OtherResult 2"
      and q' = "bind_timestamps True 7 16 QueueContext_ctor"] ne
  have "fst (allocReply env_map_fail) = Success
         \<and> (mapReply env_map_fail \<noteq> Success \<or> unmapReply env_map_fail \<noteq> Success)"
    by (simp add: env_map_fail_runs)
  ultimately show ?thesis using ne by (simp add: env_map_fail_runs)
qed

section \<open>Properties of the pipeline interface\<close>

lemma pipeline_run_data:
  "GetClientData (pipeline_run cs this) = last_set cs (GetClientData this)"
proof (induction cs arbitrary: this)
  case Nil
  show ?case by simp
next
  case (Cons c cs)
  have "GetClientData (pipeline_run (c # cs) this)
          = last_set cs (GetClientData (pipeline_call_step c this))"
    by (simp add: Cons.IH)
  also have "\<dots> = last_set (c # cs) (GetClientData this)"
    by (cases c) (simp_all add: GetClientData_def SetClientData_def)
  finally show ?case .
qed

lemma last_set_no_set: "list_all (\<lambda>c. \<not> is_set c) cs \<Longrightarrow> last_set cs p = p"
proof (induction cs)
  case Nil
  show ?case by simp
next
  case (Cons c cs)
  then show ?case by (cases c) simp_all
qed

lemma link_one_prefix: "\<exists>ext. link_one resolve l st = st @ ext"
  by (simp add: link_one_def)

lemma fold_link_prefix: "\<exists>ext. fold (link_one resolve) libs st = st @ ext"
proof (induction libs arbitrary: st)
  case Nil
  show ?case by simp
next
  case (Cons l libs)
  obtain e1 where 1: "link_one resolve l st = st @ e1"
    using link_one_prefix [of resolve l st] by blast
  obtain e2 where "fold (link_one resolve) libs (st @ e1) = (st @ e1) @ e2"
    using Cons.IH [of "st @ e1"] by blast
  with 1 show ?case by simp
qed

lemma fold_link_keeps:
  "fst ` set st \<subseteq> fst ` set (fold (link_one resolve) libs st)"
  using fold_link_prefix [of resolve libs st] by auto

lemma fold_link_covers:
  "set libs \<subseteq> fst ` set (fold (link_one resolve) libs st)"
proof (induction libs arbitrary: st)
  case Nil
  show ?case by simp
next
  case (Cons l libs)
  have "l \<in> fst ` set (link_one resolve l st)"
    by (simp add: link_one_def)
  with fold_link_keeps [of "link_one resolve l st" resolve libs]
  have "l \<in> fst ` set (fold (link_one resolve) libs (link_one resolve l st))"
    by blast
  with Cons.IH [of "link_one resolve l st"] show ?case by simp
qed

lemma fold_link_known:
  "set libs \<subseteq> fst ` set st \<Longrightarrow> fold (link_one resolve) libs st = st"
  by (induction libs arbitrary: st) (simp_all add: link_one_def)

lemma fold_link_idem:
  "fold (link_one resolve) libs (fold (link_one resolve) libs st) = fold (link_one resolve) libs st"
  by (rule fold_link_known) (rule fold_link_covers)

lemma map_of_prefix:
  "l \<in> fst ` set st \<Longrightarrow> map_of (st @ ext) l = map_of st l"
  by (auto simp: map_add_def dom_map_of_conv_image_fst [symmetric] split: option.splits)

text \<open>
  C10: \<open>GetClientData\<close> returns the null pointer on a freshly constructed pipeline
  object and returns \<open>p\<close> right after \<open>SetClientData p\<close>; after any run of calls it
  returns the argument of the run's last \<open>SetClientData\<close>, or what it returned before the
  run when the run has none. So the pointer set by \<open>SetClientData p\<close> (and the initial
  null pointer) is what \<open>GetClientData\<close> returns until the next \<open>SetClientData\<close>;
  \<open>GetClientData\<close> changes nothing, and an operation of the implementing class leaves
  the pointer alone.
\<close>

theorem client_data_pointer:
  "GetClientData (IPipeline_ctor d) = None
   \<and> GetClientData (SetClientData p this) = p
   \<and> GetClientData (pipeline_run cs this) = last_set cs (GetClientData this)
   \<and> (list_all (\<lambda>c. \<not> is_set c) cs \<longrightarrow>
        GetClientData (pipeline_run cs (SetClientData p this)) = p
        \<and> GetClientData (pipeline_run cs (IPipeline_ctor d)) = None)
   \<and> pipeline_call_step CallGetClientData this = this
   \<and> GetClientData (pipeline_call_step (CallVirtual f) this) = GetClientData this"
proof -
  have "GetClientData (IPipeline_ctor d) = None" "GetClientData (SetClientData p this) = p"
    "GetClientData (pipeline_call_step (CallVirtual f) this) = GetClientData this"
    by (simp_all add: GetClientData_def IPipeline_ctor_def SetClientData_def)
  then show ?thesis
    by (simp add: pipeline_run_data last_set_no_set)
qed

theorem client_data_pointer_witness:
  "list_all (\<lambda>c. \<not> is_set c) pipe_run0
   \<and> GetClientData (pipeline_run pipe_run0 (SetClientData (Some 42) (IPipeline_ctor 0))) = Some 42
   \<and> GetClientData (pipeline_run pipe_run0 (IPipeline_ctor 0)) = None
   \<and> IPipeline.more (pipeline_run pipe_run0 (IPipeline_ctor 0)) = 1
   \<and> GetClientData (pipeline_run (CallSetClientData (Some 1) # pipe_run0 @ [CallSetClientData (Some 2)])
         (IPipeline_ctor 0)) = Some 2"
  using client_data_pointer [of 0 "Some 42" "IPipeline_ctor 0" pipe_run0]
    client_data_pointer [of 0 None "IPipeline_ctor 0"
      "CallSetClientData (Some 1) # pipe_run0 @ [CallSetClientData (Some 2)]"]
  by (simp add: pipe_run0_def IPipeline_ctor_def)

text \<open>
  C7: with a count pointer and a null list pointer, \<open>QueryAllocationInfo\<close> succeeds and
  stores the number of allocations through the count pointer, whatever it held; with a
  non-null list pointer and a count that differs from the number of allocations it
  fails with \<open>ErrorInvalidValue\<close>, and with the matching count it succeeds and writes the
  allocations; with a null count pointer it fails with \<open>ErrorInvalidPointer\<close>; a failing
  call is one of these two contract violations and leaves what both pointers refer to
  as it was.
\<close>

theorem QueryAllocationInfo_contract:
  "QueryAllocationInfo allocs (Some n) None = (Success, Some (length allocs), None)
   \<and> (n \<noteq> length allocs \<longrightarrow>
        QueryAllocationInfo allocs (Some n) (Some buf) = (ErrorInvalidValue, Some n, Some buf))
   \<and> (n = length allocs \<longrightarrow>
        QueryAllocationInfo allocs (Some n) (Some buf)
          = (Success, Some (length allocs), Some (allocs @ drop n buf)))
   \<and> QueryAllocationInfo allocs None l = (ErrorInvalidPointer, None, l)
   \<and> (fst (QueryAllocationInfo allocs c l) \<noteq> Success \<longrightarrow>
        fst (QueryAllocationInfo allocs c l) \<in> {ErrorInvalidValue, ErrorInvalidPointer}
        \<and> snd (QueryAllocationInfo allocs c l) = (c, l))"
  by (simp add: QueryAllocationInfo_def split: option.splits)

theorem QueryAllocationInfo_contract_witness:
  "QueryAllocationInfo [10, 20, 30 :: nat] (Some 5) (Some [0, 0, 0, 0, 0])
      = (ErrorInvalidValue, Some 5, Some [0, 0, 0, 0, 0])
   \<and> QueryAllocationInfo [10, 20, 30 :: nat] (Some 3) (Some [0, 0, 0])
      = (Success, Some 3, Some [10, 20, 30])
   \<and> QueryAllocationInfo [10, 20, 30 :: nat] (Some 5) None = (Success, Some 3, None)
   \<and> QueryAllocationInfo [10, 20, 30 :: nat] None (Some [0, 0, 0])
      = (ErrorInvalidPointer, None, Some [0, 0, 0])
   \<and> snd (QueryAllocationInfo [10, 20, 30 :: nat] (Some 5) (Some [0, 0, 0, 0, 0]))
      = (Some 5, Some [0, 0, 0, 0, 0])"
  using QueryAllocationInfo_contract [where allocs = "[10, 20, 30 :: nat]" and n = 5
      and buf = "[0, 0, 0, 0, 0]" and l = "Some [0, 0, 0, 0, 0]" and c = "Some 5"]
    QueryAllocationInfo_contract [where allocs = "[10, 20, 30 :: nat]" and n = 3
      and buf = "[0, 0, 0]" and l = "Some [0, 0, 0]" and c = None]
  by simp

text \<open>
  C8: on a graphics pipeline \<open>LinkWithLibraries\<close> fails with \<open>ErrorUnavailable\<close> and
  changes nothing; on a compute pipeline, when some library of the list is incompatible,
  it fails with \<open>ErrorBadPipelineData\<close> and changes nothing; every failing call leaves
  the pipeline, and so its link state, as it was. A successful call extends the link
  state: every library linked before keeps its resolved address, every library of the
  list is linked afterwards, and repeating the call changes nothing more.
\<close>

theorem LinkWithLibraries_failure_atomic:
  "(kind this = Graphics \<longrightarrow>
      LinkWithLibraries compatible resolve libs this = (ErrorUnavailable, this))
   \<and> (kind this = Compute \<and> (\<exists>l \<in> set libs. \<not> compatible l) \<longrightarrow>
        LinkWithLibraries compatible resolve libs this = (ErrorBadPipelineData, this))
   \<and> (fst (LinkWithLibraries compatible resolve libs this) \<noteq> Success \<longrightarrow>
        snd (LinkWithLibraries compatible resolve libs this) = this)
   \<and> (fst (LinkWithLibraries compatible resolve libs this) = Success \<longrightarrow>
        (\<exists>ext. linkState (snd (LinkWithLibraries compatible resolve libs this))
                 = linkState this @ ext)
        \<and> (\<forall>l \<in> fst ` set (linkState this).
              map_of (linkState (snd (LinkWithLibraries compatible resolve libs this))) l
                = map_of (linkState this) l)
        \<and> set libs \<subseteq> fst ` set (linkState (snd (LinkWithLibraries compatible resolve libs this)))
        \<and> LinkWithLibraries compatible resolve libs
             (snd (LinkWithLibraries compatible resolve libs this))
           = LinkWithLibraries compatible resolve libs this)"
proof -
  obtain ext where e: "fold (link_one resolve) libs (linkState this) = linkState this @ ext"
    using fold_link_prefix [of resolve libs "linkState this"] by blast
  have p: "\<forall>l \<in> fst ` set (linkState this).
             map_of (fold (link_one resolve) libs (linkState this)) l = map_of (linkState this) l"
    unfolding e using map_of_prefix by fast
  show ?thesis
    using p fold_link_prefix [of resolve libs "linkState this"]
      fold_link_covers [of libs resolve "linkState this"]
    by (cases "kind this")
       (simp_all add: LinkWithLibraries_def list_all_iff fold_link_idem)
qed

theorem LinkWithLibraries_failure_atomic_witness:
  "kind pipe_gfx = Graphics
   \<and> LinkWithLibraries compat0 resolve0 [2] pipe_gfx = (ErrorUnavailable, pipe_gfx)
   \<and> kind pipe_cmp = Compute \<and> (\<exists>l \<in> set [2, 11]. \<not> compat0 l)
   \<and> LinkWithLibraries compat0 resolve0 [2, 11] pipe_cmp = (ErrorBadPipelineData, pipe_cmp)
   \<and> fst (LinkWithLibraries compat0 resolve0 [2, 1, 3] pipe_cmp) = Success
   \<and> 1 \<in> fst ` set (linkState pipe_cmp)
   \<and> map_of (linkState (snd (LinkWithLibraries compat0 resolve0 [2, 1, 3] pipe_cmp))) 1 = Some 256
   \<and> linkState (snd (LinkWithLibraries compat0 resolve0 [2, 1, 3] pipe_cmp))
        = [(1, 256), (2, 512), (3, 768)]"
  using LinkWithLibraries_failure_atomic [of pipe_gfx compat0 resolve0 "[2]"]
    LinkWithLibraries_failure_atomic [of pipe_cmp compat0 resolve0 "[2, 11]"]
    LinkWithLibraries_failure_atomic [of pipe_cmp compat0 resolve0 "[2, 1, 3]"]
  by (simp add: pipe_gfx_def pipe_cmp_def compat0_def resolve0_def LinkWithLibraries_def
        link_one_def)

end
